theory Spec2Isabelle
  imports Complex_Main "HOL-Library.Word"
begin

unbundle bit_operations_syntax

section \<open>Data model of the RaceChrono BLE device library\<close>

text \<open>
  The library (\<^verbatim>\<open>esp32_racechrono.hpp\<close>, \<^verbatim>\<open>esp32_racechrono.cpp\<close>) has three classes:
  \<^verbatim>\<open>Equation\<close>, \<^verbatim>\<open>Monitor\<close> and \<^verbatim>\<open>CANSpoof\<close>, and three callback classes whose
  \<^verbatim>\<open>onWrite\<close>/\<open>onDisconnect\<close> methods the BLE stack invokes.

  Bytes (\<^verbatim>\<open>uint8_t\<close>, the characters of a \<^verbatim>\<open>std::string\<close>) are \<open>8 word\<close>;
  \<^verbatim>\<open>int32_t\<close> and \<^verbatim>\<open>uint32_t\<close> are \<open>32 word\<close>.
\<close>

type_synonym byte = "8 word"
type_synonym std_string = "byte list"

subsection \<open>Single-precision floats\<close>

text \<open>
  The code stores \<^verbatim>\<open>float\<close> values and uses four float operations: the constant
  \<^verbatim>\<open>NAN\<close>, the constant \<^verbatim>\<open>1.0f\<close>, the conversion \<^verbatim>\<open>static_cast<float>(int32_t)\<close>,
  multiplication and division. The functions of the library take the float type as a type
  parameter \<open>'f\<close> and the operations as a record, so every theorem stated for arbitrary
  \<open>ops\<close> holds for whatever the hardware's floats do. Two instances follow.
\<close>

record 'f float_ops =
  f_nan :: 'f
  f_one :: 'f
  f_of_int32 :: "32 word \<Rightarrow> 'f"
  f_mul :: "'f \<Rightarrow> 'f \<Rightarrow> 'f"
  f_div :: "'f \<Rightarrow> 'f \<Rightarrow> 'f"

text \<open>
  \<open>exact_ops\<close> is not binary32: a float is an exact real number, or \<open>None\<close> for NaN;
  nothing is rounded and there is no infinity. It is used only to run the engine on inputs
  where binary32 computes exactly the same (raw values such as 5 and 1000, \<open>scale_inv\<close>
  1 and 2), never for a statement about float arithmetic.
\<close>

definition exact_ops :: "real option float_ops" where
  "exact_ops =
     \<lparr> f_nan = None,
       f_one = Some 1,
       f_of_int32 = (\<lambda>w. Some (real_of_int (sint w))),
       f_mul = (\<lambda>a b. case a of None \<Rightarrow> None
                      | Some x \<Rightarrow> (case b of None \<Rightarrow> None | Some y \<Rightarrow> Some (x * y))),
       f_div = (\<lambda>a b. case a of None \<Rightarrow> None
                      | Some x \<Rightarrow> (case b of None \<Rightarrow> None
                                   | Some y \<Rightarrow> if y = 0 then None else Some (x / y))) \<rparr>"









subsection \<open>Equation\<close>

text \<open>
  \<^verbatim>\<open>class Equation { float scale_inv; std::string equation; float value; ... }\<close>.
  The field \<^verbatim>\<open>value\<close> is named \<open>value'\<close> here.
\<close>

record 'f Equation =
  scale_inv :: 'f
  equation :: std_string
  value' :: 'f

definition INT32_MAX :: "32 word" where
  "INT32_MAX = 0x7FFFFFFF"

text \<open>The constructor: \<^verbatim>\<open>scale_inv(1.0f / scale), equation(equation), value(NAN)\<close>.\<close>

definition Equation_init :: "'f float_ops \<Rightarrow> std_string \<Rightarrow> 'f \<Rightarrow> 'f Equation" where
  "Equation_init ops eqn scale =
     \<lparr> scale_inv = f_div ops (f_one ops) scale, equation = eqn, value' = f_nan ops \<rparr>"

text \<open>
  \<^verbatim>\<open>value = (raw == INT32_MAX) ? NAN : static_cast<float>(raw) * scale_inv;\<close>
\<close>

definition update_from_raw :: "'f float_ops \<Rightarrow> 'f Equation \<Rightarrow> 32 word \<Rightarrow> 'f Equation" where
  "update_from_raw ops eq raw =
     eq\<lparr> value' := (if raw = INT32_MAX then f_nan ops
                    else f_mul ops (f_of_int32 ops raw) (scale_inv eq)) \<rparr>"

text \<open>\<^verbatim>\<open>void clear() { value = NAN; }\<close>\<close>

definition clear :: "'f float_ops \<Rightarrow> 'f Equation \<Rightarrow> 'f Equation" where
  "clear ops eq = eq\<lparr> value' := f_nan ops \<rparr>"

subsection \<open>Monitor\<close>

datatype monitor_state_t = UNINITIALIZED | STARTED | ACTIVE | FORCED_REFRESH

text \<open>
  The part of a \<^verbatim>\<open>Monitor\<close> that its methods read and write:
  \<^item> \<open>eqs\<close>: the vector of equations;
  \<^item> \<open>state\<close>: the session state;
  \<^item> \<open>t_state\<close>: the \<^verbatim>\<open>Ticker\<close>; \<open>Some d\<close> when the last \<^verbatim>\<open>attach_ms\<close> armed it with
    \<open>d\<close> milliseconds (an attach replaces the one before), \<open>None\<close> when it was never armed;
  \<^item> \<open>config_ch\<close>: the payloads handed to the config characteristic by
    \<^verbatim>\<open>setValue\<close> followed by \<^verbatim>\<open>indicate()\<close>, oldest first.
  The number of connected peers, \<^verbatim>\<open>server->getConnectedCount()\<close>, belongs to the BLE
  server and is an argument \<open>connected_count\<close> of every method that reads it.
\<close>

record 'f Monitor =
  eqs :: "'f Equation list"
  state :: monitor_state_t
  t_state :: "nat option"
  config_ch :: "byte list list"

definition TIMEOUT_REFRESH_MS :: nat where "TIMEOUT_REFRESH_MS = 1500"
definition TIMEOUT_RESET_MS :: nat where "TIMEOUT_RESET_MS = 3000"
definition TIMEOUT_INIT_MS :: nat where "TIMEOUT_INIT_MS = 1000"

text \<open>\<^verbatim>\<open>config_ch->setValue(payload, len); config_ch->indicate();\<close>\<close>

definition indicate :: "byte list \<Rightarrow> 'f Monitor \<Rightarrow> 'f Monitor" where
  "indicate payload m = m\<lparr> config_ch := config_ch m @ [payload] \<rparr>"

text \<open>\<^verbatim>\<open>eqs.push_back(Equation(equation, scale));\<close>\<close>

definition add :: "'f float_ops \<Rightarrow> std_string \<Rightarrow> 'f \<Rightarrow> 'f Monitor \<Rightarrow> 'f Monitor" where
  "add ops eqn scale m = m\<lparr> eqs := eqs m @ [Equation_init ops eqn scale] \<rparr>"

text \<open>
  \<^verbatim>\<open>timeout_reset(bool update_state = true)\<close>: in the three states of the switch the
  ticker is re-armed at \<^verbatim>\<open>TIMEOUT_REFRESH_MS\<close> and, if \<^verbatim>\<open>update_state\<close>, the state
  becomes \<^verbatim>\<open>ACTIVE\<close>. \<^verbatim>\<open>UNINITIALIZED\<close> has no case: nothing happens.
\<close>

definition timeout_reset :: "bool \<Rightarrow> 'f Monitor \<Rightarrow> 'f Monitor" where
  "timeout_reset update_state m =
     (case state m of
        UNINITIALIZED \<Rightarrow> m
      | _ \<Rightarrow> (let m1 = m\<lparr> t_state := Some TIMEOUT_REFRESH_MS \<rparr>
              in if update_state then m1\<lparr> state := ACTIVE \<rparr> else m1))"

text \<open>
  The inner loop of \<^verbatim>\<open>configure_equations\<close>, for one equation:
  \<^verbatim>\<open>for (int i = 0; i < equation_len; i += max_payload)\<close>.
  \<open>chunk_payload\<close> is the payload the body builds: \<^verbatim>\<open>payload[0]\<close> is 2 or 3,
  \<^verbatim>\<open>payload[1] = eq_idx\<close> (truncated to a byte), \<^verbatim>\<open>payload[2] = mon_config_seq_num\<close>,
  and \<^verbatim>\<open>memcpy(payload + 3, eq.equation.substr(i).c_str(), payload_len - 3)\<close> copies the
  first \<open>payload_len - 3\<close> bytes of the text from position \<open>i\<close>.
  \<open>configure_chunks\<close> is the loop; its arguments are the loop variable \<open>i\<close>, the running
  \<^verbatim>\<open>uint8_t mon_config_seq_num\<close> and the config characteristic's payloads so far, to
  which each iteration's \<^verbatim>\<open>setValue\<close> and \<^verbatim>\<open>indicate()\<close> append.
\<close>

definition max_payload :: nat where
  "max_payload = 17"

definition chunk_payload :: "nat \<Rightarrow> std_string \<Rightarrow> nat \<Rightarrow> byte \<Rightarrow> byte list" where
  "chunk_payload eq_idx eqn i mon_config_seq_num =
     (let (kind, payload_len) =
            (if length eqn - i > max_payload then (2 :: byte, 20 :: nat)
             else (3, 3 + (length eqn - i)))
      in [kind, of_nat eq_idx, mon_config_seq_num] @ take (payload_len - 3) (drop i eqn))"

function configure_chunks ::
  "nat \<Rightarrow> std_string \<Rightarrow> nat \<Rightarrow> byte \<Rightarrow> byte list list \<Rightarrow> byte list list" where
  "configure_chunks eq_idx eqn i mon_config_seq_num sent =
     (if i < length eqn then
        configure_chunks eq_idx eqn (i + max_payload) (mon_config_seq_num + 1)
          (sent @ [chunk_payload eq_idx eqn i mon_config_seq_num])
      else sent)"
  by pat_completeness auto
termination
  by (relation "measure (\<lambda>(eq_idx, eqn, i, s, sent). length eqn - i)")
    (auto simp: max_payload_def)

declare configure_chunks.simps [simp del]

text \<open>The outer loop: \<^verbatim>\<open>for (unsigned eq_idx = 0; eq_idx < eqs.size(); eq_idx++)\<close>.\<close>

function configure_loop :: "nat \<Rightarrow> 'f Monitor \<Rightarrow> 'f Monitor" where
  "configure_loop eq_idx m =
     (if eq_idx < length (eqs m) then
        configure_loop (Suc eq_idx)
          (m\<lparr> config_ch :=
                 configure_chunks eq_idx (equation (eqs m ! eq_idx)) 0 0 (config_ch m) \<rparr>)
      else m)"
  by pat_completeness auto
termination
  by (relation "measure (\<lambda>(eq_idx, m). length (eqs m) - eq_idx)") auto

declare configure_loop.simps [simp del]

text \<open>
  \<^verbatim>\<open>configure_equations()\<close>: with no peer connected only the timer is re-set; otherwise
  every equation is sent and then the timer is re-set. Both paths call
  \<^verbatim>\<open>timeout_reset(false)\<close>.
\<close>

definition configure_equations :: "nat \<Rightarrow> 'f Monitor \<Rightarrow> 'f Monitor" where
  "configure_equations connected_count m =
     (if connected_count = 0 then timeout_reset False m
      else timeout_reset False (configure_loop 0 m))"

text \<open>\<^verbatim>\<open>update_all()\<close>: the one-byte payload 4 is indicated; the connected count is not read.\<close>

definition update_all :: "'f Monitor \<Rightarrow> 'f Monitor" where
  "update_all m = indicate [4] m"

text \<open>
  The loop of \<^verbatim>\<open>reset()\<close> is \<^verbatim>\<open>for (auto eq : eqs) { eq.clear(); }\<close>. The loop variable is
  declared \<^verbatim>\<open>auto\<close>, not \<^verbatim>\<open>auto&\<close>: each iteration copy-constructs \<open>eq\<close> from the
  element, clears the copy, and destroys it. The first list is the rest of the range, the
  second the vector's contents, which no iteration writes.
\<close>

primrec reset_loop ::
  "'f float_ops \<Rightarrow> 'f Equation list \<Rightarrow> 'f Equation list \<Rightarrow> 'f Equation list" where
  "reset_loop ops [] vec = vec"
| "reset_loop ops (element # rest) vec =
     (let eq = element; eq = clear ops eq in reset_loop ops rest vec)"

text \<open>
  \<^verbatim>\<open>reset()\<close>: the Reset command (payload 0) if a peer is connected, the loop over the
  equations, \<^verbatim>\<open>state = STARTED\<close>, then \<^verbatim>\<open>configure_equations()\<close>.
\<close>

definition reset :: "'f float_ops \<Rightarrow> nat \<Rightarrow> 'f Monitor \<Rightarrow> 'f Monitor" where
  "reset ops connected_count m =
     (let m1 = (if connected_count > 0 then indicate [0] m else m);
          m2 = m1\<lparr> eqs := reset_loop ops (eqs m1) (eqs m1) \<rparr>;
          m3 = m2\<lparr> state := STARTED \<rparr>
      in configure_equations connected_count m3)"

definition data_valid :: "'f Monitor \<Rightarrow> bool" where
  "data_valid m = (state m = ACTIVE \<or> state m = FORCED_REFRESH)"

text \<open>
  \<^verbatim>\<open>timeout_state()\<close>, the ticker's callback (\<^verbatim>\<open>impl::t_state_callback\<close> only forwards
  to it). The switch has no case for \<^verbatim>\<open>UNINITIALIZED\<close>.
\<close>

definition timeout_state :: "'f float_ops \<Rightarrow> nat \<Rightarrow> 'f Monitor \<Rightarrow> 'f Monitor" where
  "timeout_state ops connected_count m =
     (case state m of
        STARTED \<Rightarrow>
          configure_equations connected_count (m\<lparr> t_state := Some TIMEOUT_INIT_MS \<rparr>)
      | ACTIVE \<Rightarrow>
          update_all
            (m\<lparr> t_state := Some (TIMEOUT_RESET_MS - TIMEOUT_REFRESH_MS),
                 state := FORCED_REFRESH \<rparr>)
      | FORCED_REFRESH \<Rightarrow> reset ops connected_count m
      | UNINITIALIZED \<Rightarrow> m)"

text \<open>
  The constructor creates the service and the characteristics, sets
  \<^verbatim>\<open>state = STARTED\<close> and calls \<^verbatim>\<open>configure_equations()\<close>; the vector is still
  empty then (\<^verbatim>\<open>add\<close> is called on the constructed object). Its assertion
  \<^verbatim>\<open>TIMEOUT_RESET_MS > TIMEOUT_REFRESH_MS\<close> holds for the constants.
\<close>

definition Monitor_init :: "nat \<Rightarrow> 'f Monitor" where
  "Monitor_init connected_count =
     configure_equations connected_count
       \<lparr> eqs = [], state = STARTED, t_state = None, config_ch = [] \<rparr>"

subsection \<open>Write callbacks\<close>

text \<open>
  \<^verbatim>\<open>MonConfigCallbacks::onWrite\<close>:
  \<^verbatim>\<open>if (ch->getLength() == 2 && ch->getData()[0] == 0) mon->timeout_reset();\<close>
  The argument is the written value, \<open>getLength()\<close> bytes long; \<open>&&\<close> reads the first
  byte only when the length is 2.
\<close>

definition MonConfigCallbacks_onWrite :: "byte list \<Rightarrow> 'f Monitor \<Rightarrow> 'f Monitor" where
  "MonConfigCallbacks_onWrite ch m =
     (if length ch = 2 then (if ch ! 0 = 0 then timeout_reset True m else m) else m)"

text \<open>
  \<^verbatim>\<open>MonNotifyCallbacks::onWrite\<close> indexes two buffers without a check: the written
  value \<open>raw\<close> (valid for \<open>getLength()\<close> bytes) and the vector \<open>mon->eqs\<close>
  (\<^verbatim>\<open>operator[]\<close>). An index outside either is undefined behaviour in C++; the model
  returns the matching error instead of a monitor.
\<close>

datatype error = PayloadOverread | EqIndexOutOfBounds

text \<open>
  \<^verbatim>\<open>int val_raw = raw[i+1]<<24 | raw[i+2]<<16 | raw[i+3]<<8 | raw[i+4];\<close>
  Each byte is promoted to a 32-bit \<^verbatim>\<open>int\<close> before the shift.
\<close>

definition val_raw_of :: "byte \<Rightarrow> byte \<Rightarrow> byte \<Rightarrow> byte \<Rightarrow> 32 word" where
  "val_raw_of b1 b2 b3 b4 =
     push_bit 24 (ucast b1) OR push_bit 16 (ucast b2) OR push_bit 8 (ucast b3) OR ucast b4"

text \<open>
  The loop \<^verbatim>\<open>for (int i = 0; i < ch->getLength(); i += 5)\<close>. An iteration reads
  \<open>raw[i]\<close> to \<open>raw[i+4]\<close>, so it stays inside the value only if
  \<open>i + 4 < getLength()\<close>; then it indexes \<open>eqs\<close> with the first byte.
\<close>

function notify_loop ::
  "'f float_ops \<Rightarrow> byte list \<Rightarrow> nat \<Rightarrow> 'f Equation list \<Rightarrow> error + 'f Equation list" where
  "notify_loop ops raw i es =
     (if i < length raw then
        (if length raw \<le> i + 4 then Inl PayloadOverread
         else
           (let monitor_id = unat (raw ! i);
                val_raw = val_raw_of (raw ! (i + 1)) (raw ! (i + 2)) (raw ! (i + 3)) (raw ! (i + 4))
            in if length es \<le> monitor_id then Inl EqIndexOutOfBounds
               else notify_loop ops raw (i + 5)
                      (es[monitor_id := update_from_raw ops (es ! monitor_id) val_raw])))
      else Inr es)"
  by pat_completeness auto
termination
  by (relation "measure (\<lambda>(ops, raw, i, es). length raw - i)") auto

declare notify_loop.simps [simp del]

text \<open>After the loop, \<^verbatim>\<open>mon->timeout_reset()\<close> with the default \<^verbatim>\<open>update_state = true\<close>.\<close>

definition MonNotifyCallbacks_onWrite ::
  "'f float_ops \<Rightarrow> byte list \<Rightarrow> 'f Monitor \<Rightarrow> error + 'f Monitor" where
  "MonNotifyCallbacks_onWrite ops raw m =
     (case notify_loop ops raw 0 (eqs m) of
        Inl e \<Rightarrow> Inl e
      | Inr es \<Rightarrow> Inr (timeout_reset True (m\<lparr> eqs := es \<rparr>)))"

text \<open>
  The decoding as the protocol describes it, for comparison with the loop: \<open>records_of\<close>
  cuts a value into its whole five-byte records (channel id, big-endian value) and leaves
  out a shorter rest; \<open>apply_records\<close> applies them in order, stopping at a channel id
  that indexes no equation.
\<close>

fun records_of :: "byte list \<Rightarrow> (nat \<times> 32 word) list" where
  "records_of (c # b1 # b2 # b3 # b4 # rest) =
     (unat c, val_raw_of b1 b2 b3 b4) # records_of rest"
| "records_of _ = []"

fun apply_records ::
  "'f float_ops \<Rightarrow> (nat \<times> 32 word) list \<Rightarrow> 'f Equation list \<Rightarrow> error + 'f Equation list" where
  "apply_records ops [] es = Inr es"
| "apply_records ops ((c, v) # rs) es =
     (if length es \<le> c then Inl EqIndexOutOfBounds
      else apply_records ops rs (es[c := update_from_raw ops (es ! c) v]))"

subsection \<open>CANSpoof\<close>

text \<open>
  Of a \<^verbatim>\<open>CANSpoof\<close> only the main characteristic matters: \<open>main_ch\<close> lists the payloads
  handed to it by \<^verbatim>\<open>setValue\<close> followed by \<^verbatim>\<open>notify()\<close>, oldest first.
\<close>

record CANSpoof =
  main_ch :: "byte list list"

text \<open>
  \<^verbatim>\<open>CANSpoof::update(uint32_t id, uint8_t data)\<close>. The assignments
  \<^verbatim>\<open>payload[k] = id >> (8 * k)\<close> truncate to a byte; the parameter \<^verbatim>\<open>id\<close> is
  named \<open>can_id\<close> here.
\<close>

definition CANSpoof_update :: "nat \<Rightarrow> 32 word \<Rightarrow> byte \<Rightarrow> CANSpoof \<Rightarrow> CANSpoof" where
  "CANSpoof_update connected_count can_id data c =
     (if connected_count = 0 then c
      else
        (let payload = [ucast (drop_bit 0 can_id), ucast (drop_bit 8 can_id),
                        ucast (drop_bit 16 can_id), ucast (drop_bit 24 can_id), data]
         in c\<lparr> main_ch := main_ch c @ [payload] \<rparr>))"

section \<open>Lemmas about the loops\<close>

subsection \<open>The registration chunks\<close>

lemma chunk_count_step:
  "i < length (eqn :: std_string) \<Longrightarrow>
   (length eqn - i + 16) div 17 = Suc ((length eqn - (i + 17) + 16) div 17)"
  by (cases "length eqn - i > 17") auto

lemma upt_shift: "[0..<Suc n] = 0 # map Suc [0..<n]"
  by (simp add: upt_conv_Cons map_Suc_upt del: upt_Suc)

lemma configure_chunks_list:
  "configure_chunks k eqn i s sent =
     sent @ map (\<lambda>j. chunk_payload k eqn (i + 17 * j) (s + of_nat j))
              [0..<(length eqn - i + 16) div 17]"
proof (induction k eqn i s sent rule: configure_chunks.induct)
  case (1 k eqn i s sent)
  show ?case
  proof (cases "i < length eqn")
    case True
    have "configure_chunks k eqn i s sent
            = configure_chunks k eqn (i + max_payload) (s + 1) (sent @ [chunk_payload k eqn i s])"
      using True by (subst configure_chunks.simps) simp
    also have "\<dots> = (sent @ [chunk_payload k eqn i s]) @
          map (\<lambda>j. chunk_payload k eqn (i + max_payload + 17 * j) (s + 1 + of_nat j))
              [0..<(length eqn - (i + max_payload) + 16) div 17]"
      using "1.IH" [OF True] .
    also have "\<dots> = sent @ map (\<lambda>j. chunk_payload k eqn (i + 17 * j) (s + of_nat j))
              [0..<(length eqn - i + 16) div 17]"
      unfolding chunk_count_step [OF True] upt_shift
      by (simp add: max_payload_def o_def add.assoc add.left_commute del: upt_Suc)
    finally show ?thesis .
  next
    case False
    then show ?thesis by (subst configure_chunks.simps) simp
  qed
qed

lemma configure_chunks_append:
  "configure_chunks k eqn i s sent = sent @ configure_chunks k eqn i s []"
  by (simp add: configure_chunks_list [of k eqn i s sent] configure_chunks_list [of k eqn i s "[]"])

lemma configure_loop_fields:
  "eqs (configure_loop k m) = eqs m \<and> state (configure_loop k m) = state m \<and>
   t_state (configure_loop k m) = t_state m"
proof (induction k m rule: configure_loop.induct)
  case (1 k m)
  show ?case
  proof (cases "k < length (eqs m)")
    case True
    then show ?thesis
      using "1.IH" [OF True] by (subst (1 2 3) configure_loop.simps) simp
  next
    case False
    then show ?thesis by (subst (1 2 3) configure_loop.simps) simp
  qed
qed

lemma config_ch_configure_loop:
  "config_ch (configure_loop k m) =
     config_ch m @ concat (map (\<lambda>j. configure_chunks j (equation (eqs m ! j)) 0 0 [])
                             [k..<length (eqs m)])"
proof (induction k m rule: configure_loop.induct)
  case (1 k m)
  show ?case
  proof (cases "k < length (eqs m)")
    case True
    have "config_ch (configure_loop k m) =
            config_ch (configure_loop (Suc k)
              (m\<lparr> config_ch := configure_chunks k (equation (eqs m ! k)) 0 0 (config_ch m) \<rparr>))"
      using True by (subst configure_loop.simps) simp
    also have "\<dots> = configure_chunks k (equation (eqs m ! k)) 0 0 (config_ch m) @
          concat (map (\<lambda>j. configure_chunks j (equation (eqs m ! j)) 0 0 [])
                    [Suc k..<length (eqs m)])"
      using "1.IH" [OF True] by simp
    also have "\<dots> = config_ch m @
          concat (map (\<lambda>j. configure_chunks j (equation (eqs m ! j)) 0 0 [])
                    [k..<length (eqs m)])"
      using True
      by (simp add: upt_conv_Cons configure_chunks_append [of k _ 0 0 "config_ch m"])
    finally show ?thesis .
  next
    case False
    then show ?thesis by (subst configure_loop.simps) simp
  qed
qed

lemma chunks_length:
  "length (configure_chunks k eqn 0 0 []) = (length eqn + 16) div 17"
  by (simp add: configure_chunks_list)

lemma chunks_nth:
  "j < (length eqn + 16) div 17 \<Longrightarrow>
   configure_chunks k eqn 0 0 [] ! j = chunk_payload k eqn (17 * j) (of_nat j)"
  by (simp add: configure_chunks_list)

lemma chunk_payload_header:
  "chunk_payload k eqn i s ! 0 = (if length eqn - i > 17 then 2 else 3)"
  "chunk_payload k eqn i s ! 1 = of_nat k"
  "chunk_payload k eqn i s ! 2 = s"
  by (simp_all add: chunk_payload_def max_payload_def)

lemma chunk_payload_text:
  "drop 3 (chunk_payload k eqn i s) = take 17 (drop i eqn)"
  by (simp add: chunk_payload_def max_payload_def)

lemma concat_slices:
  "concat (map (\<lambda>j. take 17 (drop (17 * j) (xs :: 'a list))) [0..<n]) = take (17 * n) xs"
proof (induction n)
  case 0
  then show ?case by simp
next
  case (Suc n)
  have "17 * Suc n = 17 * n + 17" by simp
  then have "take (17 * Suc n) xs = take (17 * n) xs @ take 17 (drop (17 * n) xs)"
    by (simp only: take_add)
  then show ?case using Suc by simp
qed

lemma chunks_roundtrip:
  "concat (map (drop 3) (configure_chunks k eqn 0 0 [])) = eqn"
proof -
  have "concat (map (drop 3) (configure_chunks k eqn 0 0 []))
          = concat (map (\<lambda>j. take 17 (drop (17 * j) eqn)) [0..<(length eqn + 16) div 17])"
    by (simp add: configure_chunks_list o_def chunk_payload_text)
  also have "\<dots> = take (17 * ((length eqn + 16) div 17)) eqn"
    by (rule concat_slices)
  also have "\<dots> = eqn"
    by (rule take_all) arith
  finally show ?thesis .
qed

lemma chunk_kind_last:
  "j < (length eqn + 16) div 17 \<Longrightarrow>
   (length eqn - 17 * j > 17) = (Suc j \<noteq> (length (eqn :: std_string) + 16) div 17)"
  by arith

subsection \<open>The value-write loop\<close>

lemma records_of_short: "length xs < 5 \<Longrightarrow> records_of xs = []"
  by (induction xs rule: records_of.induct) auto

lemma drop_five:
  assumes "i + 4 < length raw"
  shows "drop i raw = raw ! i # raw ! (i + 1) # raw ! (i + 2) # raw ! (i + 3) # raw ! (i + 4)
           # drop (i + 5) raw"
proof -
  have "drop i raw = raw ! i # drop (Suc i) raw"
    using assms by (simp add: Cons_nth_drop_Suc)
  also have "drop (Suc i) raw = raw ! (i + 1) # drop (i + 2) raw"
    using assms by (simp add: Cons_nth_drop_Suc)
  also have "drop (i + 2) raw = raw ! (i + 2) # drop (i + 3) raw"
    using assms Cons_nth_drop_Suc [of "i + 2" raw] by (simp add: numeral_3_eq_3 numeral_2_eq_2)
  also have "drop (i + 3) raw = raw ! (i + 3) # drop (i + 4) raw"
    using assms Cons_nth_drop_Suc [of "i + 3" raw] by (simp add: eval_nat_numeral)
  also have "drop (i + 4) raw = raw ! (i + 4) # drop (i + 5) raw"
    using assms Cons_nth_drop_Suc [of "i + 4" raw] by (simp add: eval_nat_numeral)
  finally show ?thesis .
qed

text \<open>
  The loop against the decoding: it applies the whole records in order and stops at the
  first channel id out of range; if it gets through them and a rest of one to four bytes
  is left, the next iteration reads past the end of the value.
\<close>

lemma notify_loop_records:
  "notify_loop ops raw i es =
     (case apply_records ops (records_of (drop i raw)) es of
        Inl e \<Rightarrow> Inl e
      | Inr es' \<Rightarrow> if (length raw - i) mod 5 = 0 then Inr es' else Inl PayloadOverread)"
proof (induction ops raw i es rule: notify_loop.induct)
  case (1 ops raw i es)
  show ?case
  proof (cases "i < length raw")
    case False
    then show ?thesis by (subst notify_loop.simps) simp
  next
    case inside: True
    show ?thesis
    proof (cases "length raw \<le> i + 4")
      case True
      then have "records_of (drop i raw) = []"
        by (intro records_of_short) simp
      moreover have "(length raw - i) mod 5 \<noteq> 0"
        using inside True by presburger
      ultimately show ?thesis
        using inside True by (subst notify_loop.simps) simp
    next
      case False
      then have five: "i + 4 < length raw" by simp
      have m5: "((length raw - (i + 5)) mod 5 = 0) = ((length raw - i) mod 5 = 0)"
        using five by presburger
      show ?thesis
      proof (cases "length es \<le> unat (raw ! i)")
        case True
        then show ?thesis
          using inside False
          by (subst notify_loop.simps) (simp add: drop_five [OF five] Let_def)
      next
        case inrange: False
        show ?thesis
          using inside False inrange "1.IH" [OF inside False refl refl inrange]
          by (subst notify_loop.simps)
            (simp add: drop_five [OF five] m5 Let_def cong: sum.case_cong)
      qed
    qed
  qed
qed

lemma apply_records_in_range:
  "list_all (\<lambda>(c, v). c < length es) rs \<Longrightarrow>
   apply_records ops rs es =
     Inr (fold (\<lambda>(c, v) es. es[c := update_from_raw ops (es ! c) v]) rs es)"
  by (induction rs arbitrary: es) auto

lemma apply_records_out_of_range:
  "\<not> list_all (\<lambda>(c, v). c < length es) rs \<Longrightarrow>
   apply_records ops rs es = Inl EqIndexOutOfBounds"
  by (induction rs arbitrary: es) auto

lemma onWrite_out_of_range:
  assumes "\<not> list_all (\<lambda>(c, v). c < length (eqs m)) (records_of raw)"
  shows "MonNotifyCallbacks_onWrite ops raw m = Inl EqIndexOutOfBounds"
  using apply_records_out_of_range [OF assms, of ops]
  by (simp add: MonNotifyCallbacks_onWrite_def notify_loop_records)

lemma onWrite_whole_in_range:
  assumes "list_all (\<lambda>(c, v). c < length (eqs m)) (records_of raw)"
    and "length raw mod 5 = 0"
  shows "MonNotifyCallbacks_onWrite ops raw m =
           Inr (timeout_reset True
                  (m\<lparr> eqs := fold (\<lambda>(c, v) es. es[c := update_from_raw ops (es ! c) v])
                                 (records_of raw) (eqs m) \<rparr>))"
  using apply_records_in_range [OF assms(1), of ops] assms(2)
  by (simp add: MonNotifyCallbacks_onWrite_def notify_loop_records)

lemma onWrite_partial_record:
  assumes "list_all (\<lambda>(c, v). c < length (eqs m)) (records_of raw)"
    and "length raw mod 5 \<noteq> 0"
  shows "MonNotifyCallbacks_onWrite ops raw m = Inl PayloadOverread"
  using apply_records_in_range [OF assms(1), of ops] assms(2)
  by (simp add: MonNotifyCallbacks_onWrite_def notify_loop_records)

subsection \<open>Fields left alone by the engine's methods\<close>

lemma reset_loop_vec: "reset_loop ops xs vec = vec"
  by (induction xs) simp_all

lemma timeout_reset_fields:
  "eqs (timeout_reset u m) = eqs m"
  "config_ch (timeout_reset u m) = config_ch m"
  "t_state (timeout_reset u m) =
     (if state m = UNINITIALIZED then t_state m else Some TIMEOUT_REFRESH_MS)"
  "state (timeout_reset u m) =
     (if state m = UNINITIALIZED \<or> \<not> u then state m else ACTIVE)"
  by (simp_all add: timeout_reset_def Let_def split: monitor_state_t.splits)

lemma configure_equations_fields:
  "eqs (configure_equations c m) = eqs m"
  "state (configure_equations c m) = state m"
  "t_state (configure_equations c m) =
     (if state m = UNINITIALIZED then t_state m else Some TIMEOUT_REFRESH_MS)"
  by (simp_all add: configure_equations_def configure_loop_fields timeout_reset_fields)

lemma configure_equations_no_peer:
  "config_ch (configure_equations 0 m) = config_ch m"
  by (simp add: configure_equations_def timeout_reset_fields)

lemma reset_fields:
  "eqs (reset ops c m) = eqs m"
  "state (reset ops c m) = STARTED"
  "t_state (reset ops c m) = Some TIMEOUT_REFRESH_MS"
  by (simp_all add: reset_def Let_def configure_equations_fields reset_loop_vec indicate_def)

lemma reset_no_peer: "config_ch (reset ops 0 m) = config_ch m"
  by (simp add: reset_def Let_def configure_equations_no_peer)

lemma timeout_state_STARTED:
  "state m = STARTED \<Longrightarrow>
   state (timeout_state ops c m) = STARTED \<and>
   t_state (timeout_state ops c m) = Some TIMEOUT_REFRESH_MS"
  by (simp add: timeout_state_def configure_equations_fields)

lemma ff_mask: "(0xFF :: 32 word) = mask 8"
  by (simp add: mask_eq_exp_minus_1)

lemma ucast_and_ff: "(ucast ((w :: 32 word) AND 0xFF) :: byte) = ucast w"
  unfolding ff_mask by (rule bit_word_eqI) (auto simp: bit_simps)

lemma seq_small: "j < 256 \<Longrightarrow> unat (of_nat j :: byte) = j"
  by (simp add: unat_of_nat)

subsection \<open>Equation values\<close>

text \<open>
  What \<open>update_from_raw\<close> does, whatever the float operations are: the sentinel gives
  \<^verbatim>\<open>NAN\<close>, any other raw value gives the float product, and only \<open>value'\<close> changes.
\<close>

lemma update_from_raw_sentinel: "value' (update_from_raw ops eq INT32_MAX) = f_nan ops"
  by (simp add: update_from_raw_def)

lemma update_from_raw_product:
  "raw \<noteq> INT32_MAX \<Longrightarrow>
   value' (update_from_raw ops eq raw) = f_mul ops (f_of_int32 ops raw) (scale_inv eq)"
  by (simp add: update_from_raw_def)

lemma update_from_raw_other_fields:
  "scale_inv (update_from_raw ops eq raw) = scale_inv eq"
  "equation (update_from_raw ops eq raw) = equation eq"
  by (simp_all add: update_from_raw_def)








text \<open>
  What the value-write handler does with whole records, for every monitor and value: if
  every whole record has a channel id that indexes an equation and the value is a whole
  number of records, every record is applied in order with \<open>update_from_raw\<close> and the
  timeout is reset; if some whole record has a channel id that indexes no equation, the
  vector is indexed out of bounds at the first such record.
\<close>

lemma notify_write_applies_records:
  "(list_all (\<lambda>(c, v). c < length (eqs m)) (records_of raw) \<and> length raw mod 5 = 0 \<longrightarrow>
      MonNotifyCallbacks_onWrite ops raw m =
        Inr (timeout_reset True
               (m\<lparr> eqs := fold (\<lambda>(c, v) es. es[c := update_from_raw ops (es ! c) v])
                              (records_of raw) (eqs m) \<rparr>)))
   \<and> (\<not> list_all (\<lambda>(c, v). c < length (eqs m)) (records_of raw) \<longrightarrow>
      MonNotifyCallbacks_onWrite ops raw m = Inl EqIndexOutOfBounds)"
  by (simp add: onWrite_whole_in_range onWrite_out_of_range)

text \<open>
  Two equations, scale 1 and scale 0.5 (\<open>scale_inv\<close> 2); the value carries raw 5 for
  channel 1 and raw 1000 for channel 0.
\<close>

lemma notify_write_applies_records_example:
  "MonNotifyCallbacks_onWrite exact_ops
     [0x01, 0x00, 0x00, 0x00, 0x05,  0x00, 0x00, 0x00, 0x03, 0xE8]
     \<lparr> eqs = [\<lparr> scale_inv = Some 1, equation = [0x78], value' = None \<rparr>,
              \<lparr> scale_inv = Some 2, equation = [0x79], value' = None \<rparr>],
       state = ACTIVE, t_state = Some 1500, config_ch = [] \<rparr>
   = Inr \<lparr> eqs = [\<lparr> scale_inv = Some 1, equation = [0x78], value' = Some 1000 \<rparr>,
                  \<lparr> scale_inv = Some 2, equation = [0x79], value' = Some 10 \<rparr>],
           state = ACTIVE, t_state = Some 1500, config_ch = [] \<rparr>"
  using notify_write_applies_records [of
     "\<lparr> eqs = [\<lparr> scale_inv = Some 1, equation = [0x78], value' = None \<rparr>,
              \<lparr> scale_inv = Some 2, equation = [0x79], value' = None \<rparr>],
       state = ACTIVE, t_state = Some 1500, config_ch = [] \<rparr>"
     "[0x01, 0x00, 0x00, 0x00, 0x05,  0x00, 0x00, 0x00, 0x03, 0xE8]" exact_ops]
  by (simp add: timeout_reset_def update_from_raw_def val_raw_of_def exact_ops_def
        INT32_MAX_def TIMEOUT_REFRESH_MS_def)

subsection \<open>A run of the engine\<close>

text \<open>
  A monitor is constructed with a peer connected and given the equation \<open>x\<close> at scale
  1. The timer fires (the registration goes out), the peer acknowledges with \<open>[0, 0]\<close>
  and writes raw 1000 for channel 0: the value is 1000. The timer fires again (Update-all
  goes out, the state is \<^verbatim>\<open>FORCED_REFRESH\<close>) and once more, which calls \<open>reset()\<close>:
  Reset and the registration go out and the state is \<^verbatim>\<open>STARTED\<close>, but the value is
  still 1000.
\<close>

lemma reset_scenario:
  "(let m0 = add exact_ops [0x78] (Some 1) (Monitor_init 1);
        m1 = timeout_state exact_ops 1 m0;
        m2 = MonConfigCallbacks_onWrite [0x00, 0x00] m1
    in case MonNotifyCallbacks_onWrite exact_ops [0x00, 0x00, 0x00, 0x03, 0xE8] m2 of
         Inl e \<Rightarrow> False
       | Inr m3 \<Rightarrow>
           (let m4 = timeout_state exact_ops 1 m3;
                m5 = timeout_state exact_ops 1 m4
            in map value' (eqs m3) = [Some 1000] \<and> state m4 = FORCED_REFRESH
               \<and> state m5 = STARTED \<and> map value' (eqs m5) = [Some 1000]
               \<and> config_ch m5 = [[3, 0, 0, 0x78], [4], [0], [3, 0, 0, 0x78]]))"
  by (simp add: Let_def add_def Monitor_init_def Equation_init_def exact_ops_def
        timeout_state_def configure_equations_def timeout_reset_def
        configure_loop.simps configure_chunks.simps chunk_payload_def max_payload_def
        MonConfigCallbacks_onWrite_def MonNotifyCallbacks_onWrite_def notify_loop.simps
        update_from_raw_def val_raw_of_def INT32_MAX_def update_all_def indicate_def
        reset_def TIMEOUT_REFRESH_MS_def TIMEOUT_INIT_MS_def TIMEOUT_RESET_MS_def)

section \<open>The claims\<close>

text \<open>
  C1. Claimed: \<open>reset()\<close> leaves every equation's value NoData and the state Started.
  The state part holds (\<open>reset_fields\<close>). The values are not cleared: the loop clears
  copies, so the vector is what it was. Here \<open>reset()\<close> runs on a monitor in
  \<^verbatim>\<open>FORCED_REFRESH\<close> whose only equation holds 1000.0 (\<open>reset_scenario\<close> reaches such
  a monitor from the constructor); afterwards the state is \<^verbatim>\<open>STARTED\<close> and the
  equation still holds 1000.0, which is not NaN.
\<close>

theorem reset_keeps_stored_value:
  "eqs (reset exact_ops 0
          \<lparr> eqs = [\<lparr> scale_inv = Some 1, equation = [0x78], value' = Some 1000 \<rparr>],
            state = FORCED_REFRESH, t_state = Some 1500, config_ch = [] \<rparr>)
     = [\<lparr> scale_inv = Some 1, equation = [0x78], value' = Some 1000 \<rparr>]
   \<and> Some 1000 \<noteq> f_nan exact_ops
   \<and> state (reset exact_ops 0
          \<lparr> eqs = [\<lparr> scale_inv = Some 1, equation = [0x78], value' = Some 1000 \<rparr>],
            state = FORCED_REFRESH, t_state = Some 1500, config_ch = [] \<rparr>) = STARTED"
  by (simp add: reset_fields exact_ops_def)

text \<open>
  C2. Claimed: a record whose channel id indexes no equation is dropped, the rest of the
  value is decoded and applied, and nothing is accessed out of bounds. The handler indexes
  \<open>mon->eqs\<close> with the byte it read, unchecked. With one equation configured, a value
  of two records, the first for channel 1 and the second for channel 0, ends in the
  access \<open>eqs[1]\<close> past the vector; the record for channel 0 is never reached.
\<close>

theorem notify_write_unknown_channel:
  "MonNotifyCallbacks_onWrite exact_ops
     [0x01, 0x00, 0x00, 0x00, 0x05,  0x00, 0x00, 0x00, 0x03, 0xE8]
     \<lparr> eqs = [\<lparr> scale_inv = Some 1, equation = [0x78], value' = None \<rparr>],
       state = ACTIVE, t_state = Some 1500, config_ch = [] \<rparr>
   = Inl EqIndexOutOfBounds"
  by (simp add: onWrite_out_of_range)

text \<open>
  C3. Claimed: a value of \<open>n\<close> bytes is decoded as \<open>n div 5\<close> records and the last
  \<open>n mod 5\<close> bytes are never read as part of a record. The loop runs while
  \<open>i < getLength()\<close>, so a rest of one to four bytes starts one more iteration, which
  reads \<open>raw[i+1]\<close> to \<open>raw[i+4]\<close> past the end of the value
  (\<open>onWrite_partial_record\<close> is the general statement). Here a value of one byte and a
  value of six bytes, with one equation configured.
\<close>

theorem notify_write_partial_record:
  "MonNotifyCallbacks_onWrite exact_ops [0x00]
     \<lparr> eqs = [\<lparr> scale_inv = Some 1, equation = [0x78], value' = None \<rparr>],
       state = ACTIVE, t_state = Some 1500, config_ch = [] \<rparr>
   = Inl PayloadOverread
   \<and> MonNotifyCallbacks_onWrite exact_ops [0x00, 0x00, 0x00, 0x03, 0xE8, 0x00]
     \<lparr> eqs = [\<lparr> scale_inv = Some 1, equation = [0x78], value' = None \<rparr>],
       state = ACTIVE, t_state = Some 1500, config_ch = [] \<rparr>
   = Inl PayloadOverread"
  by (simp add: onWrite_partial_record)

text \<open>
  C4. Claimed, for an expression of length 0, 1, 17, 18, 34 or 35: the chunks sent for it
  are numbered from 0, carry at most 17 text bytes each, are of kind 2 except the last,
  which is of kind 3, give back the expression when their texts are concatenated, and
  there is at least one chunk even for length 0. The last part fails: for the empty
  expression the loop body never runs, so a monitor whose only equation is empty sends
  nothing with a peer connected.
\<close>

theorem empty_expression_sends_no_chunk:
  "config_ch (configure_equations 1
     \<lparr> eqs = [\<lparr> scale_inv = Some (1 :: real), equation = [], value' = None \<rparr>],
       state = STARTED, t_state = None, config_ch = [] \<rparr>) = []"
  by (simp add: configure_equations_def timeout_reset_fields config_ch_configure_loop
        configure_chunks_list)

text \<open>
  C4, as the code has it. With a peer connected, \<open>configure_equations\<close> sends the chunks
  of equation 0, then those of equation 1, and so on. For equation \<open>k\<close> with an
  expression of length \<open>L\<close> among 0, 1, 17, 18, 34 and 35 there are \<open>(L + 16) div 17\<close>
  chunks: none exactly when the expression is empty. Chunk \<open>j\<close> has sequence number
  \<open>j\<close> (byte 2), at most 17 text bytes (from byte 3 on) and kind 3 (byte 0) if it is
  the last, kind 2 otherwise; the texts concatenated in order are the expression.
\<close>

theorem configure_equations_chunking:
  assumes "0 < connected_count" and "k < length (eqs m)"
    and "length (equation (eqs m ! k)) \<in> {0, 1, 17, 18, 34, 35}"
  shows "config_ch (configure_equations connected_count m) =
           config_ch m @ concat (map (\<lambda>j. configure_chunks j (equation (eqs m ! j)) 0 0 [])
                                   [0..<length (eqs m)])
       \<and> (let eqn = equation (eqs m ! k); chunks = configure_chunks k eqn 0 0 [] in
            length chunks = (length eqn + 16) div 17
          \<and> (chunks = []) = (eqn = [])
          \<and> (\<forall>j<length chunks.
                unat (chunks ! j ! 2) = j
              \<and> length (drop 3 (chunks ! j)) \<le> 17
              \<and> chunks ! j ! 0 = (if Suc j = length chunks then 3 else 2))
          \<and> concat (map (drop 3) chunks) = eqn)"
proof -
  define eqn where "eqn = equation (eqs m ! k)"
  define chunks where "chunks = configure_chunks k eqn 0 0 []"
  have sent: "config_ch (configure_equations connected_count m) =
           config_ch m @ concat (map (\<lambda>j. configure_chunks j (equation (eqs m ! j)) 0 0 [])
                                   [0..<length (eqs m)])"
    using assms(1)
    by (simp add: configure_equations_def timeout_reset_fields config_ch_configure_loop)
  have len: "length chunks = (length eqn + 16) div 17"
    by (simp add: chunks_def chunks_length)
  have small: "length chunks \<le> 3"
    using assms(3) unfolding len eqn_def by auto
  have empty: "(chunks = []) = (eqn = [])"
  proof -
    have "(length chunks = 0) = (length eqn = 0)"
      unfolding len by arith
    then show ?thesis by simp
  qed
  have each: "unat (chunks ! j ! 2) = j \<and> length (drop 3 (chunks ! j)) \<le> 17
              \<and> chunks ! j ! 0 = (if Suc j = length chunks then 3 else 2)"
    if "j < length chunks" for j
  proof -
    have j: "j < (length eqn + 16) div 17"
      using that by (simp add: len)
    have nth: "chunks ! j = chunk_payload k eqn (17 * j) (of_nat j)"
      by (simp add: chunks_def chunks_nth [OF j])
    have "unat (chunks ! j ! 2) = j"
      using that small by (simp add: nth chunk_payload_header seq_small)
    moreover have "length (drop 3 (chunks ! j)) \<le> 17"
      by (simp add: nth chunk_payload_text)
    moreover have "chunks ! j ! 0 = (if Suc j = length chunks then 3 else 2)"
      using chunk_kind_last [OF j] by (simp add: nth chunk_payload_header len)
    ultimately show ?thesis by simp
  qed
  have round: "concat (map (drop 3) chunks) = eqn"
    by (simp add: chunks_def chunks_roundtrip)
  show ?thesis
    using sent len empty each round
    unfolding Let_def eqn_def [symmetric] chunks_def [symmetric] by blast
qed

text \<open>An expression of 18 bytes goes out as a chunk of 17 and a final chunk of 1.\<close>

theorem configure_equations_chunking_witness:
  "config_ch (configure_equations 1
     \<lparr> eqs = [\<lparr> scale_inv = Some (1 :: real),
                equation = [1, 2, 3, 4, 5, 6, 7, 8, 9, 10, 11, 12, 13, 14, 15, 16, 17, 18],
                value' = None \<rparr>],
       state = STARTED, t_state = None, config_ch = [] \<rparr>)
   = [[2, 0, 0, 1, 2, 3, 4, 5, 6, 7, 8, 9, 10, 11, 12, 13, 14, 15, 16, 17], [3, 0, 1, 18]]"
proof -
  let ?m = "\<lparr> eqs = [\<lparr> scale_inv = Some (1 :: real),
                equation = [1, 2, 3, 4, 5, 6, 7, 8, 9, 10, 11, 12, 13, 14, 15, 16, 17, 18],
                value' = None \<rparr>],
       state = STARTED, t_state = None, config_ch = [] \<rparr>"
  have "config_ch (configure_equations 1 ?m) =
          config_ch ?m @ concat (map (\<lambda>j. configure_chunks j (equation (eqs ?m ! j)) 0 0 [])
                                   [0..<length (eqs ?m)])"
    using configure_equations_chunking [of 1 0 ?m] by simp
  then show ?thesis
    by (simp add: configure_chunks.simps chunk_payload_def max_payload_def)
qed

text \<open>
  C5. Claimed: when the timer fires in \<^verbatim>\<open>STARTED\<close>, the deadline pending after the
  handler is \<^verbatim>\<open>TIMEOUT_INIT_MS\<close> (1000). \<open>timeout_state\<close> does arm the ticker at
  \<^verbatim>\<open>TIMEOUT_INIT_MS\<close>, but then calls \<open>configure_equations\<close>, whose
  \<open>timeout_reset(false)\<close> arms it again at \<^verbatim>\<open>TIMEOUT_REFRESH_MS\<close> (1500), with or
  without a peer (\<open>timeout_state_STARTED\<close>). The state stays \<^verbatim>\<open>STARTED\<close> and the
  registration is sent, as claimed.
\<close>

theorem started_timer_fire_deadline:
  "timeout_state exact_ops 1
     \<lparr> eqs = [\<lparr> scale_inv = Some 1, equation = [0x78], value' = None \<rparr>],
       state = STARTED, t_state = Some 1500, config_ch = [] \<rparr>
   = \<lparr> eqs = [\<lparr> scale_inv = Some 1, equation = [0x78], value' = None \<rparr>],
       state = STARTED, t_state = Some 1500, config_ch = [[3, 0, 0, 0x78]] \<rparr>
   \<and> TIMEOUT_INIT_MS = 1000"
  by (simp add: timeout_state_def configure_equations_def timeout_reset_def
        configure_loop.simps configure_chunks.simps chunk_payload_def max_payload_def
        TIMEOUT_REFRESH_MS_def TIMEOUT_INIT_MS_def)

text \<open>
  C6. Claimed: with no peer connected nothing is handed to the transport by any entry
  point. That holds for \<open>configure_equations\<close> and \<open>reset\<close>
  (\<open>configure_equations_no_peer\<close>, \<open>reset_no_peer\<close>), which test the connected count.
  \<open>update_all\<close> does not test it: when the timer fires in \<^verbatim>\<open>ACTIVE\<close> with no peer
  connected, the Update-all command (payload 4) is set and indicated all the same.
\<close>

theorem active_timer_fire_no_peer_sends:
  "config_ch (timeout_state exact_ops 0
     \<lparr> eqs = [\<lparr> scale_inv = Some 1, equation = [0x78], value' = None \<rparr>],
       state = ACTIVE, t_state = Some 1500, config_ch = [] \<rparr>) = [[4]]"
  by (simp add: timeout_state_def update_all_def indicate_def)

text \<open>
  C7. In \<^verbatim>\<open>STARTED\<close>, a write of exactly two bytes whose first byte is 0 on the config
  characteristic arms the timer at \<^verbatim>\<open>TIMEOUT_REFRESH_MS\<close> and makes the state
  \<^verbatim>\<open>ACTIVE\<close>; a write of any other length or first byte changes nothing at all.
\<close>

theorem config_ack_advances_started:
  assumes "state m = STARTED"
  shows "MonConfigCallbacks_onWrite ch m =
           (if length ch = 2 \<and> ch ! 0 = 0
            then m\<lparr> t_state := Some TIMEOUT_REFRESH_MS, state := ACTIVE \<rparr>
            else m)"
  using assms by (simp add: MonConfigCallbacks_onWrite_def timeout_reset_def)

text \<open>The ack \<open>[0, 0]\<close> and the write \<open>[1, 0]\<close>, on a monitor in \<^verbatim>\<open>STARTED\<close>.\<close>

theorem config_ack_advances_started_witness:
  "MonConfigCallbacks_onWrite [0x00, 0x00]
     \<lparr> eqs = [\<lparr> scale_inv = Some (1 :: real), equation = [0x78], value' = None \<rparr>],
       state = STARTED, t_state = Some 1000, config_ch = [] \<rparr>
   = \<lparr> eqs = [\<lparr> scale_inv = Some 1, equation = [0x78], value' = None \<rparr>],
       state = ACTIVE, t_state = Some 1500, config_ch = [] \<rparr>
   \<and> MonConfigCallbacks_onWrite [0x01, 0x00]
     \<lparr> eqs = [\<lparr> scale_inv = Some (1 :: real), equation = [0x78], value' = None \<rparr>],
       state = STARTED, t_state = Some 1000, config_ch = [] \<rparr>
   = \<lparr> eqs = [\<lparr> scale_inv = Some 1, equation = [0x78], value' = None \<rparr>],
       state = STARTED, t_state = Some 1000, config_ch = [] \<rparr>"
  using config_ack_advances_started [of
     "\<lparr> eqs = [\<lparr> scale_inv = Some (1 :: real), equation = [0x78], value' = None \<rparr>],
       state = STARTED, t_state = Some 1000, config_ch = [] \<rparr>" "[0x00, 0x00]"]
    config_ack_advances_started [of
     "\<lparr> eqs = [\<lparr> scale_inv = Some (1 :: real), equation = [0x78], value' = None \<rparr>],
       state = STARTED, t_state = Some 1000, config_ch = [] \<rparr>" "[0x01, 0x00]"]
  by (simp add: TIMEOUT_REFRESH_MS_def)




text \<open>
  C9. \<open>CANSpoof::update(id, data)\<close> does nothing when no peer is connected; otherwise it
  notifies exactly the five bytes \<open>id & 0xFF\<close>, \<open>(id >> 8) & 0xFF\<close>,
  \<open>(id >> 16) & 0xFF\<close>, \<open>(id >> 24) & 0xFF\<close>, \<open>data\<close> on the main characteristic.
\<close>

theorem CANSpoof_update_frame:
  "CANSpoof_update connected_count can_id data c =
     (if connected_count = 0 then c
      else c\<lparr> main_ch := main_ch c @
             [[ucast (can_id AND 0xFF), ucast (drop_bit 8 can_id AND 0xFF),
               ucast (drop_bit 16 can_id AND 0xFF), ucast (drop_bit 24 can_id AND 0xFF),
               data]] \<rparr>)"
  by (simp add: CANSpoof_update_def ucast_and_ff)

text \<open>\<open>update(0x123, 7)\<close> with one peer connected, and with none.\<close>

theorem CANSpoof_update_frame_witness:
  "CANSpoof_update 1 0x123 7 \<lparr> main_ch = [] \<rparr> = \<lparr> main_ch = [[0x23, 0x01, 0x00, 0x00, 0x07]] \<rparr>
   \<and> CANSpoof_update 0 0x123 7 \<lparr> main_ch = [] \<rparr> = \<lparr> main_ch = [] \<rparr>"
  using CANSpoof_update_frame [of 1 "0x123" 7 "\<lparr> main_ch = [] \<rparr>"]
    CANSpoof_update_frame [of 0 "0x123" 7 "\<lparr> main_ch = [] \<rparr>"]
  by simp

text \<open>
  C10. In \<^verbatim>\<open>STARTED\<close>, a value write on the notify characteristic ends, after the
  records are decoded, in \<open>timeout_reset()\<close> with \<open>update_state = true\<close>: whenever the
  handler returns, the state is \<^verbatim>\<open>ACTIVE\<close>, the timer is armed at
  \<^verbatim>\<open>TIMEOUT_REFRESH_MS\<close> and \<open>data_valid()\<close> is true, without any ack on the config
  characteristic. And it does return for every value made of whole records whose channel
  ids index equations, the empty value among them.
\<close>

theorem notify_write_advances_started:
  assumes "state m = STARTED"
  shows "(\<forall>m'. MonNotifyCallbacks_onWrite ops raw m = Inr m' \<longrightarrow>
            state m' = ACTIVE \<and> t_state m' = Some TIMEOUT_REFRESH_MS \<and> data_valid m')
       \<and> (length raw mod 5 = 0 \<and> list_all (\<lambda>(c, v). c < length (eqs m)) (records_of raw) \<longrightarrow>
            (\<exists>m'. MonNotifyCallbacks_onWrite ops raw m = Inr m'))"
proof (intro conjI allI impI)
  fix m'
  assume "MonNotifyCallbacks_onWrite ops raw m = Inr m'"
  then obtain es where "m' = timeout_reset True (m\<lparr> eqs := es \<rparr>)"
    by (auto simp: MonNotifyCallbacks_onWrite_def split: sum.splits)
  with assms show "state m' = ACTIVE" "t_state m' = Some TIMEOUT_REFRESH_MS" "data_valid m'"
    by (simp_all add: timeout_reset_fields data_valid_def)
next
  assume "length raw mod 5 = 0 \<and> list_all (\<lambda>(c, v). c < length (eqs m)) (records_of raw)"
  then show "\<exists>m'. MonNotifyCallbacks_onWrite ops raw m = Inr m'"
    by (simp add: onWrite_whole_in_range)
qed

text \<open>One record, raw 1000 for channel 0, written to a monitor in \<^verbatim>\<open>STARTED\<close>.\<close>

theorem notify_write_advances_started_witness:
  "\<exists>m'. MonNotifyCallbacks_onWrite exact_ops [0x00, 0x00, 0x00, 0x03, 0xE8]
          \<lparr> eqs = [\<lparr> scale_inv = Some 1, equation = [0x78], value' = None \<rparr>],
            state = STARTED, t_state = Some 1000, config_ch = [] \<rparr> = Inr m'
        \<and> state m' = ACTIVE \<and> t_state m' = Some 1500 \<and> data_valid m'"
  using notify_write_advances_started [of
          "\<lparr> eqs = [\<lparr> scale_inv = Some 1, equation = [0x78], value' = None \<rparr>],
            state = STARTED, t_state = Some 1000, config_ch = [] \<rparr>"
          exact_ops "[0x00, 0x00, 0x00, 0x03, 0xE8]"]
  by (auto simp: TIMEOUT_REFRESH_MS_def)

end
